theory Spec2Isabelle
  imports Main "HOL-Library.Sublist"
begin

section \<open>The session identity resolver of the session-creation route\<close>

text \<open>
  The route handler resolves a per-browser user identifier from the \<open>Cookie\<close> header
  of the request (\<open>resolveUserId\<close>, \<open>getCookieValue\<close>) and, when it has to mint one,
  serialises a \<open>Set-Cookie\<close> directive for it (\<open>serializeSessionCookie\<close>).

  Strings. A JavaScript string is a sequence of code units. The value that
  \<open>request.headers.get("cookie")\<close> returns is a byte string (every code unit is below 256),
  and the identifiers the platform generates are ASCII, so a string is modelled by a HOL
  \<open>string\<close>, one \<open>char\<close> for each code unit 0..255; \<open>string | null\<close> is
  \<open>string option\<close>.
\<close>

subsection \<open>The string primitives the code calls\<close>

text \<open>
  \<open>s.split(sep)\<close> for a separator of one code unit: the pieces between the occurrences
  of the separator, in order. The result is never empty: \<open>"".split(";")\<close> is \<open>[""]\<close>.
\<close>

fun split_on :: "char \<Rightarrow> string \<Rightarrow> string list" where
  "split_on sep [] = [[]]"
| "split_on sep (c # cs) =
     (if c = sep then [] # split_on sep cs
      else (case split_on sep cs of
              [] \<Rightarrow> [[c]]
            | piece # pieces \<Rightarrow> (c # piece) # pieces))"

text \<open>\<open>pieces.join(sep)\<close>: the pieces with the separator between neighbours.\<close>

fun join :: "string \<Rightarrow> string list \<Rightarrow> string" where
  "join sep [] = []"
| "join sep [piece] = piece"
| "join sep (piece # pieces) = piece @ sep @ join sep pieces"

text \<open>
  \<open>s.trim()\<close> removes white space and line terminators from both ends. Among the code
  units below 256 these are TAB, LF, VT, FF, CR, SPACE and NO-BREAK SPACE.
\<close>

definition js_whitespace :: "char \<Rightarrow> bool" where
  "js_whitespace c \<longleftrightarrow> (of_char c :: nat) \<in> {9, 10, 11, 12, 13, 32, 160}"

definition trim :: "string \<Rightarrow> string" where
  "trim s = rev (dropWhile js_whitespace (rev (dropWhile js_whitespace s)))"

text \<open>
  \<open>encodeURIComponent\<close>: the unreserved characters \<open>A-Z a-z 0-9 - _ . ! ~ * ' ( )\<close>
  stay; every other code unit is written as the bytes of its UTF-8 encoding, each byte as
  \<open>%\<close> and two upper-case hexadecimal digits. A code unit below 128 is one byte, one
  from 128 to 255 is two.
\<close>

definition uri_unreserved :: "char \<Rightarrow> bool" where
  "uri_unreserved c \<longleftrightarrow>
     c \<in> set (''ABCDEFGHIJKLMNOPQRSTUVWXYZabcdefghijklmnopqrstuvwxyz0123456789-_.!~*()''
              @ [CHR 0x27])"

definition hex_digit :: "nat \<Rightarrow> char" where
  "hex_digit n = ''0123456789ABCDEF'' ! (n mod 16)"

definition percent_byte :: "nat \<Rightarrow> string" where
  "percent_byte b = [CHR ''%'', hex_digit (b div 16), hex_digit b]"

definition encode_unit :: "char \<Rightarrow> string" where
  "encode_unit c =
     (let n = (of_char c :: nat) in
      if uri_unreserved c then [c]
      else if n < 128 then percent_byte n
      else percent_byte (192 + n div 64) @ percent_byte (128 + n mod 64))"

definition encodeURIComponent :: "string \<Rightarrow> string" where
  "encodeURIComponent s = concat (map encode_unit s)"

text \<open>
  A template literal \<open>`${n}`\<close> prints a non-negative integer in decimal, without leading
  zeros.
\<close>

definition decimal_digit :: "nat \<Rightarrow> char" where
  "decimal_digit n = ''0123456789'' ! (n mod 10)"

function decimal :: "nat \<Rightarrow> string" where
  "decimal n =
     (if n < 10 then [decimal_digit n]
      else decimal (n div 10) @ [decimal_digit n])"
  by pat_completeness auto
termination
  by (relation "measure (\<lambda>n. n)") auto

declare decimal.simps [simp del]

subsection \<open>The environment\<close>

text \<open>
  What the code reads from its surroundings is an explicit input:
  \<^item> \<open>randomUUID\<close> is \<open>None\<close> when \<open>typeof crypto.randomUUID === "function"\<close> is false,
    and otherwise holds the string that the call \<open>crypto.randomUUID()\<close> returns;
  \<^item> \<open>mathRandom36\<close> is the string \<open>Math.random().toString(36)\<close>, the base-36 rendering
    of the pseudo-random number drawn from the interval from 0 (included) to 1 (excluded);
  \<^item> \<open>NODE_ENV\<close> is \<open>process.env.NODE_ENV\<close>.
\<close>

record env =
  randomUUID :: "string option"
  mathRandom36 :: string
  NODE_ENV :: "string option"

subsection \<open>The route's constants and functions\<close>

definition SESSION_COOKIE_NAME :: string where
  "SESSION_COOKIE_NAME = ''chatkit_session_id''"

definition SESSION_COOKIE_MAX_AGE :: nat where
  "SESSION_COOKIE_MAX_AGE = 60 * 60 * 24 * 30"

text \<open>
  The loop of \<open>getCookieValue\<close> over the pieces of the header. A piece is split at every
  \<open>=\<close>; \<open>rawName\<close> is the first part and \<open>rest\<close> the others. A piece with an empty
  \<open>rawName\<close> or with no \<open>=\<close> is passed over (\<open>continue\<close>); the first piece whose
  trimmed name is the wanted one ends the loop.
\<close>

fun getCookieValue_loop :: "string list \<Rightarrow> string \<Rightarrow> string option" where
  "getCookieValue_loop [] name = None"
| "getCookieValue_loop (cookie # cookies) name =
     (case split_on (CHR ''='') cookie of
        [] \<Rightarrow> getCookieValue_loop cookies name
      | rawName # rest \<Rightarrow>
          if rawName = [] \<or> rest = [] then getCookieValue_loop cookies name
          else if trim rawName = name then Some (trim (join ''='' rest))
          else getCookieValue_loop cookies name)"

definition getCookieValue :: "string option \<Rightarrow> string \<Rightarrow> string option" where
  "getCookieValue cookieHeader name =
     (case cookieHeader of
        None \<Rightarrow> None
      | Some header \<Rightarrow>
          if header = [] then None
          else getCookieValue_loop (split_on (CHR '';'') header) name)"

definition serializeSessionCookie :: "env \<Rightarrow> string \<Rightarrow> string" where
  "serializeSessionCookie e v =
     (let attributes =
            [SESSION_COOKIE_NAME @ ''='' @ encodeURIComponent v,
             ''Path=/'',
             ''Max-Age='' @ decimal SESSION_COOKIE_MAX_AGE,
             ''HttpOnly'',
             ''SameSite=Lax''];
          attributes =
            (if NODE_ENV e = Some ''production'' then attributes @ [''Secure'']
             else attributes)
      in join ''; '' attributes)"

text \<open>The local constant \<open>generated\<close> of \<open>resolveUserId\<close>.\<close>

definition generated :: "env \<Rightarrow> string" where
  "generated e =
     (case randomUUID e of
        Some uuid \<Rightarrow> uuid
      | None \<Rightarrow> drop 2 (mathRandom36 e))"

record resolved =
  userId :: string
  sessionCookie :: "string option"

text \<open>
  \<open>resolveUserId\<close> takes the request's \<open>Cookie\<close> header (\<open>None\<close> when the request has
  none). The test \<open>if (existing)\<close> holds for a string that is neither \<open>null\<close> nor empty.
\<close>

definition resolveUserId :: "env \<Rightarrow> string option \<Rightarrow> resolved" where
  "resolveUserId e cookieHeader =
     (case getCookieValue cookieHeader SESSION_COOKIE_NAME of
        Some existing \<Rightarrow>
          if existing \<noteq> [] then \<lparr>userId = existing, sessionCookie = None\<rparr>
          else \<lparr>userId = generated e,
                sessionCookie = Some (serializeSessionCookie e (generated e))\<rparr>
      | None \<Rightarrow>
          \<lparr>userId = generated e,
           sessionCookie = Some (serializeSessionCookie e (generated e))\<rparr>)"

subsection \<open>Vocabulary of the specification\<close>

text \<open>
  A piece of the header is a pair named \<open>name\<close> when it has an \<open>=\<close> and what stands
  before the first \<open>=\<close> is, after trimming, exactly \<open>name\<close>. Its value is what
  stands after the first \<open>=\<close>, trimmed.
\<close>

definition pair_named :: "string \<Rightarrow> string \<Rightarrow> bool" where
  "pair_named name seg \<longleftrightarrow>
     CHR ''='' \<in> set seg \<and> trim (takeWhile (\<lambda>c. c \<noteq> CHR ''='') seg) = name"

definition pair_value :: "string \<Rightarrow> string" where
  "pair_value seg = trim (tl (dropWhile (\<lambda>c. c \<noteq> CHR ''='') seg))"

text \<open>
  The parsing algorithm as the specification words it: split the header on \<open>;\<close>, split
  each piece on its first \<open>=\<close>, trim, compare the name with the wanted one, and take
  the first pair that matches.
\<close>

fun first_pair_named :: "string list \<Rightarrow> string \<Rightarrow> string option" where
  "first_pair_named [] name = None"
| "first_pair_named (seg # segs) name =
     (if pair_named name seg then Some (pair_value seg) else first_pair_named segs name)"

definition getCookieValue_spec :: "string \<Rightarrow> string \<Rightarrow> string option" where
  "getCookieValue_spec header name = first_pair_named (split_on (CHR '';'') header) name"

text \<open>
  A malformed piece: one with no \<open>=\<close>, or with nothing before its first \<open>=\<close>
  (the empty piece is one).
\<close>

definition malformed_pair :: "string \<Rightarrow> bool" where
  "malformed_pair seg \<longleftrightarrow>
     CHR ''='' \<notin> set seg \<or> takeWhile (\<lambda>c. c \<noteq> CHR ''='') seg = []"

text \<open>
  A request with no session pair: the \<open>Cookie\<close> header is absent, or none of its pieces
  is a pair named \<open>chatkit_session_id\<close> (the empty header is such a header).
\<close>

definition no_session_pair :: "string option \<Rightarrow> bool" where
  "no_session_pair cookieHeader \<longleftrightarrow>
     (case cookieHeader of
        None \<Rightarrow> True
      | Some header \<Rightarrow>
          list_all (\<lambda>seg. \<not> pair_named SESSION_COOKIE_NAME seg)
            (split_on (CHR '';'') header))"

text \<open>
  The attributes of a cookie directive: its pieces between the \<open>;\<close>, trimmed.
\<close>

definition directive_attributes :: "string \<Rightarrow> string list" where
  "directive_attributes directive = map trim (split_on (CHR '';'') directive)"

text \<open>
  The shape of what the random sources return. \<open>crypto.randomUUID()\<close> returns 36
  characters, lower-case hexadecimal digits with a hyphen at the positions 8, 13, 18
  and 23. \<open>Math.random().toString(36)\<close> renders a number that is at least 0 and less
  than 1: \<open>0\<close> for the number 0, and otherwise \<open>0.\<close> followed by at least one
  base-36 digit.
\<close>

definition uuid_char :: "char \<Rightarrow> bool" where
  "uuid_char c \<longleftrightarrow> c \<in> set ''0123456789abcdef-''"

definition uuid_shaped :: "string \<Rightarrow> bool" where
  "uuid_shaped u \<longleftrightarrow>
     length u = 36 \<and> list_all uuid_char u \<and>
     u ! 8 = CHR ''-'' \<and> u ! 13 = CHR ''-'' \<and> u ! 18 = CHR ''-'' \<and> u ! 23 = CHR ''-''"

definition base36_digit :: "char \<Rightarrow> bool" where
  "base36_digit c \<longleftrightarrow> c \<in> set ''0123456789abcdefghijklmnopqrstuvwxyz''"

definition radix36_fraction :: "string \<Rightarrow> bool" where
  "radix36_fraction s \<longleftrightarrow>
     s = ''0'' \<or>
     (take 2 s = ''0.'' \<and> drop 2 s \<noteq> [] \<and> list_all base36_digit (drop 2 s))"

text \<open>
  The random draw that \<open>resolveUserId\<close> consumes in an environment, and whether it
  has the shape above.
\<close>

definition draw :: "env \<Rightarrow> string" where
  "draw e = (case randomUUID e of Some uuid \<Rightarrow> uuid | None \<Rightarrow> mathRandom36 e)"

definition valid_draw :: "env \<Rightarrow> bool" where
  "valid_draw e \<longleftrightarrow>
     (case randomUUID e of
        Some uuid \<Rightarrow> uuid_shaped uuid
      | None \<Rightarrow> radix36_fraction (mathRandom36 e))"

section \<open>Properties of the string primitives\<close>

lemma split_on_not_Nil: "split_on sep s \<noteq> []"
  by (induction s) (auto split: list.splits)

lemma split_on_no_sep: "sep \<notin> set s \<Longrightarrow> split_on sep s = [s]"
  by (induction s) auto

lemma split_on_append: "sep \<notin> set a \<Longrightarrow> split_on sep (a @ sep # b) = a # split_on sep b"
  by (induction a) auto

lemma join_split_on: "join [sep] (split_on sep s) = s"
proof (induction s)
  case Nil
  show ?case by simp
next
  case (Cons c cs)
  obtain piece pieces where sp: "split_on sep cs = piece # pieces"
    using split_on_not_Nil [of sep cs] by (cases "split_on sep cs") auto
  show ?case
  proof (cases "c = sep")
    case True
    with Cons sp show ?thesis by simp
  next
    case False
    with Cons sp show ?thesis by (cases pieces) auto
  qed
qed

lemma split_on_pieces: "piece \<in> set (split_on sep s) \<Longrightarrow> sep \<notin> set piece"
proof (induction s arbitrary: piece)
  case Nil
  then show ?case by simp
next
  case (Cons c cs)
  then show ?case
    by (cases "split_on sep cs") (auto split: if_splits)
qed

lemma split_on_first:
  "split_on sep s =
     takeWhile (\<lambda>c. c \<noteq> sep) s #
     (if sep \<in> set s then split_on sep (tl (dropWhile (\<lambda>c. c \<noteq> sep) s)) else [])"
proof (cases "sep \<in> set s")
  case False
  then have tw: "takeWhile (\<lambda>c. c \<noteq> sep) s = s"
    by auto
  have sp: "split_on sep s = [s]" using False by (rule split_on_no_sep)
  show ?thesis unfolding sp tw using False by simp
next
  case True
  then obtain a b where s: "s = a @ sep # b" and a: "sep \<notin> set a"
    by (auto dest: split_list_first)
  have "takeWhile (\<lambda>c. c \<noteq> sep) s = a" 
    using a unfolding s by (simp add: takeWhile_append)
  moreover have "dropWhile (\<lambda>c. c \<noteq> sep) s = sep # b"
    using a unfolding s by (simp add: dropWhile_append)
  ultimately show ?thesis using True a by (simp add: s split_on_append)
qed

lemma trim_id: "\<forall>c \<in> set s. \<not> js_whitespace c \<Longrightarrow> trim s = s"
proof (cases s)
  case Nil
  then show ?thesis by (simp add: trim_def)
next
  case (Cons c cs)
  assume ws: "\<forall>c \<in> set s. \<not> js_whitespace c"
  then have 1: "dropWhile js_whitespace s = s" using Cons by simp
  have "rev s \<noteq> []" using Cons by simp
  then obtain d ds where r: "rev s = d # ds" by (cases "rev s") auto
  then have "d \<in> set s" by (metis list.set_intros(1) set_rev)
  with ws r have "dropWhile js_whitespace (rev s) = rev s" by simp
  with 1 show ?thesis by (simp add: trim_def)
qed

lemma decimal_max_age: "decimal SESSION_COOKIE_MAX_AGE = ''2592000''"
  unfolding SESSION_COOKIE_MAX_AGE_def
  by (simp add: decimal_digit_def decimal.simps [of 2592000] decimal.simps [of 259200]
      decimal.simps [of 25920] decimal.simps [of 2592] decimal.simps [of 259]
      decimal.simps [of 25] decimal.simps [of 2])

lemma hex_digit_unreserved: "uri_unreserved (hex_digit n)"
proof -
  have "hex_digit n \<in> set ''0123456789ABCDEF''"
    unfolding hex_digit_def by (rule nth_mem) simp
  then show ?thesis by (auto simp: uri_unreserved_def)
qed

lemma encode_unit_chars:
  "x \<in> set (encode_unit c) \<Longrightarrow> uri_unreserved x \<or> x = CHR ''%''"
  by (auto simp: encode_unit_def Let_def percent_byte_def hex_digit_unreserved split: if_splits)

lemma encodeURIComponent_chars:
  "x \<in> set (encodeURIComponent s) \<Longrightarrow> uri_unreserved x \<or> x = CHR ''%''"
  by (auto simp: encodeURIComponent_def dest: encode_unit_chars)

lemma uri_unreserved_plain:
  "uri_unreserved x \<or> x = CHR ''%'' \<Longrightarrow>
     x \<noteq> CHR '';'' \<and> x \<noteq> CHR ''='' \<and> \<not> js_whitespace x"
  by (auto simp: uri_unreserved_def js_whitespace_def)

lemma encodeURIComponent_id:
  "\<forall>c \<in> set s. uri_unreserved c \<Longrightarrow> encodeURIComponent s = s"
  by (induction s) (auto simp: encodeURIComponent_def encode_unit_def)

section \<open>The parsing loop\<close>

lemma trim_Nil: "trim [] = []"
  by (simp add: trim_def)

lemma getCookieValue_loop_step:
  assumes "name \<noteq> []"
  shows "getCookieValue_loop (seg # segs) name =
           (if pair_named name seg then Some (pair_value seg)
            else getCookieValue_loop segs name)"
proof -
  let ?raw = "takeWhile (\<lambda>c. c \<noteq> CHR ''='') seg"
  let ?val = "tl (dropWhile (\<lambda>c. c \<noteq> CHR ''='') seg)"
  show ?thesis
  proof (cases "CHR ''='' \<in> set seg")
    case False
    then have "split_on (CHR ''='') seg = [seg]" by (rule split_on_no_sep)
    with False show ?thesis by (simp add: pair_named_def)
  next
    case True
    then have sp: "split_on (CHR ''='') seg = ?raw # split_on (CHR ''='') ?val"
      using split_on_first [of "CHR ''=''" seg] by simp
    have j: "join ''='' (split_on (CHR ''='') ?val) = ?val" by (rule join_split_on)
    have ne: "split_on (CHR ''='') ?val \<noteq> []" by (rule split_on_not_Nil)
    show ?thesis
    proof (cases "?raw = []")
      case True
      with assms have "\<not> pair_named name seg" by (simp add: pair_named_def trim_Nil)
      with True sp show ?thesis by simp
    next
      case False
      with sp j ne True show ?thesis by (simp add: pair_named_def pair_value_def)
    qed
  qed
qed

lemma getCookieValue_loop_first_pair_named:
  "name \<noteq> [] \<Longrightarrow> getCookieValue_loop segs name = first_pair_named segs name"
  by (induction segs) (simp_all add: getCookieValue_loop_step del: getCookieValue_loop.simps(2))

lemma first_pair_named_none:
  "\<forall>s \<in> set segs. \<not> pair_named name s \<Longrightarrow> first_pair_named segs name = None"
  by (induction segs) auto

lemma first_pair_named_append:
  "\<forall>s \<in> set pre. \<not> pair_named name s \<Longrightarrow>
     first_pair_named (pre @ segs) name = first_pair_named segs name"
  by (induction pre) auto

lemma pair_named_split:
  "CHR ''='' \<notin> set rawName \<Longrightarrow>
     pair_named name (rawName @ CHR ''='' # v) \<longleftrightarrow> trim rawName = name"
  by (simp add: pair_named_def takeWhile_append)

lemma pair_value_split:
  "CHR ''='' \<notin> set rawName \<Longrightarrow> pair_value (rawName @ CHR ''='' # v) = trim v"
  by (simp add: pair_value_def dropWhile_append)

lemma SESSION_COOKIE_NAME_not_Nil: "SESSION_COOKIE_NAME \<noteq> []"
  by (simp add: SESSION_COOKIE_NAME_def)

lemma getCookieValue_header:
  "getCookieValue (Some header) SESSION_COOKIE_NAME =
     first_pair_named (split_on (CHR '';'') header) SESSION_COOKIE_NAME"
proof (cases "header = []")
  case True
  then show ?thesis
    by (simp add: getCookieValue_def pair_named_def)
next
  case False
  then show ?thesis
    by (simp add: getCookieValue_def getCookieValue_loop_first_pair_named
        SESSION_COOKIE_NAME_not_Nil)
qed

lemma getCookieValue_loop_skip:
  "malformed_pair seg \<Longrightarrow>
     getCookieValue_loop (pre @ seg # post) name = getCookieValue_loop (pre @ post) name"
proof (induction pre)
  case Nil
  show ?case
  proof (cases "CHR ''='' \<in> set seg")
    case False
    then show ?thesis by (simp add: split_on_no_sep)
  next
    case True
    with Nil have "takeWhile (\<lambda>c. c \<noteq> CHR ''='') seg = []"
      by (simp add: malformed_pair_def)
    then show ?thesis
      using split_on_first [of "CHR ''=''" seg] by simp
  qed
next
  case (Cons p pre)
  then show ?case by (simp split: list.splits)
qed

lemma getCookieValue_loop_header:
  "getCookieValue (Some header) name = getCookieValue_loop (split_on (CHR '';'') header) name"
  by (simp add: getCookieValue_def)

lemma resolveUserId_generates:
  assumes "no_session_pair cookieHeader"
  shows "resolveUserId e cookieHeader =
           \<lparr>userId = generated e,
            sessionCookie = Some (serializeSessionCookie e (generated e))\<rparr>"
proof -
  have "getCookieValue cookieHeader SESSION_COOKIE_NAME = None"
  proof (cases cookieHeader)
    case None
    then show ?thesis by (simp add: getCookieValue_def)
  next
    case (Some header)
    with assms show ?thesis
      by (simp add: getCookieValue_header no_session_pair_def first_pair_named_none list_all_iff)
  qed
  then show ?thesis by (simp add: resolveUserId_def)
qed

lemma getCookieValue_first:
  assumes "split_on (CHR '';'') header = pre @ seg # post"
    and "\<forall>s \<in> set pre. \<not> pair_named SESSION_COOKIE_NAME s"
    and "pair_named SESSION_COOKIE_NAME seg"
  shows "getCookieValue (Some header) SESSION_COOKIE_NAME = Some (pair_value seg)"
  using assms by (simp add: getCookieValue_header first_pair_named_append)

section \<open>The serialised directive\<close>

lemma serializeSessionCookie_string:
  "serializeSessionCookie e v =
     ''chatkit_session_id='' @ encodeURIComponent v @
     ''; Path=/; Max-Age=2592000; HttpOnly; SameSite=Lax'' @
     (if NODE_ENV e = Some ''production'' then ''; Secure'' else '''')"
  by (simp add: serializeSessionCookie_def SESSION_COOKIE_NAME_def decimal_max_age)

lemma encodeURIComponent_no_semicolon: "CHR '';'' \<notin> set (encodeURIComponent v)"
  using encodeURIComponent_chars uri_unreserved_plain by blast

lemma encodeURIComponent_no_equals: "CHR ''='' \<notin> set (encodeURIComponent v)"
  using encodeURIComponent_chars uri_unreserved_plain by blast

lemma encodeURIComponent_no_whitespace:
  "\<forall>c \<in> set (encodeURIComponent v). \<not> js_whitespace c"
  using encodeURIComponent_chars uri_unreserved_plain by blast

lemma split_on_serialized:
  "split_on (CHR '';'') (serializeSessionCookie e v) =
     (''chatkit_session_id='' @ encodeURIComponent v) #
     ['' Path=/'', '' Max-Age=2592000'', '' HttpOnly'', '' SameSite=Lax''] @
     (if NODE_ENV e = Some ''production'' then ['' Secure''] else [])"
proof -
  let ?first = "''chatkit_session_id='' @ encodeURIComponent v"
  have no: "CHR '';'' \<notin> set ?first"
    by (simp add: encodeURIComponent_no_semicolon)
  have "serializeSessionCookie e v =
          ?first @ CHR '';'' # ('' Path=/; Max-Age=2592000; HttpOnly; SameSite=Lax'' @
            (if NODE_ENV e = Some ''production'' then ''; Secure'' else ''''))"
    by (simp add: serializeSessionCookie_string)
  then show ?thesis
    by (simp only: split_on_append [OF no]) simp
qed

lemma first_piece_named:
  "pair_named SESSION_COOKIE_NAME (''chatkit_session_id='' @ encodeURIComponent v)"
  using pair_named_split [of "''chatkit_session_id''" SESSION_COOKIE_NAME "encodeURIComponent v"]
  by (simp add: SESSION_COOKIE_NAME_def trim_def js_whitespace_def)

lemma first_piece_value:
  "pair_value (''chatkit_session_id='' @ encodeURIComponent v) = encodeURIComponent v"
  using pair_value_split [of "''chatkit_session_id''" "encodeURIComponent v"]
  by (simp add: trim_id encodeURIComponent_no_whitespace)

lemma getCookieValue_serialized:
  "getCookieValue (Some (serializeSessionCookie e v)) SESSION_COOKIE_NAME =
     Some (encodeURIComponent v)"
  by (simp add: getCookieValue_header split_on_serialized first_piece_named first_piece_value
      del: append.simps)

section \<open>The generated identifier\<close>

lemma uuid_char_unreserved: "uuid_char c \<Longrightarrow> uri_unreserved c"
  by (auto simp: uuid_char_def uri_unreserved_def)

lemma radix36_fraction_drop_inj:
  assumes "radix36_fraction a" and "radix36_fraction b" and "drop 2 a = drop 2 b"
  shows "a = b"
proof (cases "drop 2 a = []")
  case True
  with assms have "a = ''0''" and "b = ''0''"
    by (auto simp: radix36_fraction_def)
  then show ?thesis by simp
next
  case False
  with assms have "take 2 a = ''0.''" and "take 2 b = ''0.''"
    by (auto simp: radix36_fraction_def)
  then have "take 2 a @ drop 2 a = take 2 b @ drop 2 b"
    using assms(3) by simp
  then show ?thesis by (simp only: append_take_drop_id)
qed

lemma uuid_not_base36:
  assumes "uuid_shaped u" and "radix36_fraction m"
  shows "u \<noteq> drop 2 m"
proof
  assume eq: "u = drop 2 m"
  from assms(1) have len: "length u = 36" and hy: "u ! 8 = CHR ''-''"
    by (simp_all add: uuid_shaped_def)
  from len eq have "drop 2 m \<noteq> []" by auto
  with assms(2) have "list_all base36_digit (drop 2 m)"
    by (auto simp: radix36_fraction_def)
  with eq have "list_all base36_digit u" by simp
  with len have "base36_digit (u ! 8)" by (simp add: list_all_length)
  with hy show False by (simp add: base36_digit_def)
qed

lemma generated_inj:
  assumes "valid_draw e1" and "valid_draw e2" and "draw e1 \<noteq> draw e2"
  shows "generated e1 \<noteq> generated e2"
proof (cases "randomUUID e1")
  case None
  note n1 = None
  show ?thesis
  proof (cases "randomUUID e2")
    case None
    with n1 assms show ?thesis
      by (auto simp: valid_draw_def draw_def generated_def dest: radix36_fraction_drop_inj)
  next
    case (Some u)
    with n1 assms(1,2) show ?thesis
      using uuid_not_base36 [of u "mathRandom36 e1"]
      by (auto simp: valid_draw_def generated_def)
  qed
next
  case (Some u)
  note s1 = Some
  show ?thesis
  proof (cases "randomUUID e2")
    case None
    with s1 assms(1,2) show ?thesis
      using uuid_not_base36 [of u "mathRandom36 e2"]
      by (auto simp: valid_draw_def generated_def)
  next
    case (Some u')
    with s1 assms(3) show ?thesis
      by (simp add: draw_def generated_def)
  qed
qed

lemma generated_not_empty:
  assumes "valid_draw e" and "draw e \<noteq> ''0''"
  shows "generated e \<noteq> []"
proof (cases "randomUUID e")
  case None
  with assms show ?thesis
    by (auto simp: valid_draw_def draw_def generated_def radix36_fraction_def)
next
  case (Some u)
  with assms(1) have "length u = 36" by (simp add: valid_draw_def uuid_shaped_def)
  with Some show ?thesis by (auto simp: generated_def)
qed

lemma generated_directive_attributes:
  "set [''Path=/'', ''Max-Age=2592000'', ''HttpOnly'', ''SameSite=Lax'']
     \<subseteq> set (directive_attributes (serializeSessionCookie e v))"
proof -
  have first: "trim (''chatkit_session_id='' @ encodeURIComponent v) =
               ''chatkit_session_id='' @ encodeURIComponent v"
    using encodeURIComponent_no_whitespace [of v]
    by (intro trim_id) (auto simp: js_whitespace_def)
  have rest: "map trim ['' Path=/'', '' Max-Age=2592000'', '' HttpOnly'', '' SameSite=Lax''] =
              [''Path=/'', ''Max-Age=2592000'', ''HttpOnly'', ''SameSite=Lax'']"
    by (simp add: trim_def js_whitespace_def)
  show ?thesis
    unfolding directive_attributes_def split_on_serialized
    using first rest by (simp del: append.simps)
qed


section \<open>The claims of the specification\<close>

subsection \<open>C1: an identifier found in the cookie is reused\<close>

text \<open>
  C1 as the specification states it: for every \<open>Cookie\<close> header that contains a pair
  whose trimmed name is \<open>chatkit_session_id\<close>, \<open>resolveUserId\<close> returns that pair's
  value as \<open>userId\<close> and \<open>sessionCookie = null\<close>. Two headers refute it. The header
  \<open>chatkit_session_id=\<close> holds such a pair, with the empty value; the test
  \<open>if (existing)\<close> fails for the empty string, so an identifier is generated and a
  directive is emitted. The header \<open>chatkit_session_id=a;chatkit_session_id=b\<close> holds
  the pair with the value \<open>b\<close>, and the loop returns at the first pair, with \<open>a\<close>.
\<close>

theorem C1_counterexample:
  "pair_named SESSION_COOKIE_NAME ''chatkit_session_id='' \<and>
   pair_value ''chatkit_session_id='' = [] \<and>
   resolveUserId
     \<lparr>randomUUID = Some ''3b241101-e2bb-4255-8caf-4136c566a962'',
      mathRandom36 = ''0.4fzyo82mvyr'', NODE_ENV = None\<rparr>
     (Some ''chatkit_session_id='') =
   \<lparr>userId = ''3b241101-e2bb-4255-8caf-4136c566a962'',
    sessionCookie = Some (''chatkit_session_id=3b241101-e2bb-4255-8caf-4136c566a962'' @
      ''; Path=/; Max-Age=2592000; HttpOnly; SameSite=Lax'')\<rparr> \<and>
   split_on (CHR '';'') ''chatkit_session_id=a;chatkit_session_id=b'' =
     [''chatkit_session_id=a'', ''chatkit_session_id=b''] \<and>
   pair_named SESSION_COOKIE_NAME ''chatkit_session_id=b'' \<and>
   pair_value ''chatkit_session_id=b'' = ''b'' \<and>
   resolveUserId
     \<lparr>randomUUID = Some ''3b241101-e2bb-4255-8caf-4136c566a962'',
      mathRandom36 = ''0.4fzyo82mvyr'', NODE_ENV = None\<rparr>
     (Some ''chatkit_session_id=a;chatkit_session_id=b'') =
   \<lparr>userId = ''a'', sessionCookie = None\<rparr>"
  by (simp add: pair_named_def pair_value_def SESSION_COOKIE_NAME_def trim_def
      js_whitespace_def resolveUserId_def getCookieValue_def generated_def
      serializeSessionCookie_string encodeURIComponent_def encode_unit_def uri_unreserved_def)

text \<open>
  C1, amended: when the first pair named \<open>chatkit_session_id\<close> among the pieces of the
  header has a value that is not empty after trimming, \<open>resolveUserId\<close> returns that
  value, trimmed and otherwise as it stands in the header (it is not URL-decoded), as
  \<open>userId\<close>, and \<open>sessionCookie\<close> is \<open>null\<close>. The pair is written
  \<open>rawName = v\<close>, with no \<open>=\<close> in \<open>rawName\<close>; the value \<open>v\<close> may hold any
  character but \<open>;\<close>.
\<close>

theorem C1_amended:
  assumes "split_on (CHR '';'') header = pre @ (rawName @ ''='' @ v) # post"
    and "\<forall>s \<in> set pre. \<not> pair_named SESSION_COOKIE_NAME s"
    and "CHR ''='' \<notin> set rawName"
    and "trim rawName = SESSION_COOKIE_NAME"
    and "trim v \<noteq> []"
  shows "resolveUserId e (Some header) = \<lparr>userId = trim v, sessionCookie = None\<rparr>"
proof -
  have "pair_named SESSION_COOKIE_NAME (rawName @ ''='' @ v)"
    using assms(3,4) by (simp add: pair_named_split)
  with assms(1,2)
  have "getCookieValue (Some header) SESSION_COOKIE_NAME = Some (pair_value (rawName @ ''='' @ v))"
    by (rule getCookieValue_first)
  also have "pair_value (rawName @ ''='' @ v) = trim v"
    using assms(3) by (simp add: pair_value_split)
  finally show ?thesis
    using assms(5) by (simp add: resolveUserId_def)
qed

text \<open>
  The header \<open>foo=bar; chatkit_session_id=xyz; baz=qux\<close> of the specification is an
  instance: the identifier is \<open>xyz\<close> and no cookie is emitted.
\<close>

theorem C1_amended_witness:
  "split_on (CHR '';'') ''foo=bar; chatkit_session_id=xyz; baz=qux'' =
     [''foo=bar''] @ ('' chatkit_session_id'' @ ''='' @ ''xyz'') # ['' baz=qux''] \<and>
   \<not> pair_named SESSION_COOKIE_NAME ''foo=bar'' \<and>
   CHR ''='' \<notin> set '' chatkit_session_id'' \<and>
   trim '' chatkit_session_id'' = SESSION_COOKIE_NAME \<and>
   trim ''xyz'' \<noteq> [] \<and>
   resolveUserId \<lparr>randomUUID = None, mathRandom36 = ''0.4fzyo82mvyr'', NODE_ENV = None\<rparr>
     (Some ''foo=bar; chatkit_session_id=xyz; baz=qux'') =
   \<lparr>userId = ''xyz'', sessionCookie = None\<rparr>"
proof -
  have 1: "split_on (CHR '';'') ''foo=bar; chatkit_session_id=xyz; baz=qux'' =
     [''foo=bar''] @ ('' chatkit_session_id'' @ ''='' @ ''xyz'') # ['' baz=qux'']"
    by simp
  have 2: "\<forall>s \<in> set [''foo=bar'']. \<not> pair_named SESSION_COOKIE_NAME s"
    by (simp add: pair_named_def SESSION_COOKIE_NAME_def trim_def js_whitespace_def)
  have 3: "CHR ''='' \<notin> set '' chatkit_session_id''" by simp
  have 4: "trim '' chatkit_session_id'' = SESSION_COOKIE_NAME"
    by (simp add: SESSION_COOKIE_NAME_def trim_def js_whitespace_def)
  have 5: "trim ''xyz'' \<noteq> []" by (simp add: trim_def js_whitespace_def)
  have 6: "trim ''xyz'' = ''xyz''" by (simp add: trim_def js_whitespace_def)
  show ?thesis
    using C1_amended [OF 1 2 3 4 5] 1 2 3 4 5 6 by simp
qed

subsection \<open>C2: with no session pair an identifier is generated\<close>

text \<open>
  C2 states that a request with no session pair gets a non-empty generated \<open>userId\<close>
  and a directive. Where \<open>crypto.randomUUID\<close> is not a function and \<open>Math.random()\<close>
  draws the number 0, \<open>Math.random().toString(36)\<close> is the string \<open>0\<close>, of which
  \<open>slice(2)\<close> leaves nothing: the generated \<open>userId\<close> is the empty string, and the
  directive carries an empty value. For every other draw of the shape the platform gives
  it the identifier is not empty (\<open>generated_not_empty\<close>); the identifier is generated
  and the directive emitted for every request with no session pair
  (\<open>resolveUserId_generates\<close>), and the directive has the attributes \<open>Path=/\<close>,
  \<open>Max-Age=2592000\<close>, \<open>HttpOnly\<close> and \<open>SameSite=Lax\<close>
  (\<open>generated_directive_attributes\<close>).
\<close>

theorem C2_zero_draw:
  "resolveUserId \<lparr>randomUUID = None, mathRandom36 = ''0'', NODE_ENV = None\<rparr> None =
     \<lparr>userId = [],
      sessionCookie =
        Some ''chatkit_session_id=; Path=/; Max-Age=2592000; HttpOnly; SameSite=Lax''\<rparr>"
  by (simp add: resolveUserId_def getCookieValue_def generated_def serializeSessionCookie_string
      encodeURIComponent_def)

subsection \<open>C3: the wire format of the directive\<close>

text \<open>
  C3: the directive is exactly \<open>chatkit_session_id=\<close>, the URL-encoded identifier, and
  \<open>; Path=/; Max-Age=2592000; HttpOnly; SameSite=Lax\<close>, in this order, with
  \<open>; Secure\<close> at the end exactly when \<open>NODE_ENV\<close> is \<open>production\<close>. This holds
  of \<open>serializeSessionCookie\<close> for every value, and whenever \<open>resolveUserId\<close> emits
  a directive it is this string for the identifier it generated and returns.
\<close>

theorem C3_wire_format:
  "serializeSessionCookie e v =
     ''chatkit_session_id='' @ encodeURIComponent v @
     ''; Path=/; Max-Age=2592000; HttpOnly; SameSite=Lax'' @
     (if NODE_ENV e = Some ''production'' then ''; Secure'' else '''') \<and>
   (\<forall>c. sessionCookie (resolveUserId e cookieHeader) = Some c \<longrightarrow>
      userId (resolveUserId e cookieHeader) = generated e \<and>
      c = ''chatkit_session_id='' @ encodeURIComponent (generated e) @
          ''; Path=/; Max-Age=2592000; HttpOnly; SameSite=Lax'' @
          (if NODE_ENV e = Some ''production'' then ''; Secure'' else ''''))"
proof (rule conjI)
  show "serializeSessionCookie e v =
     ''chatkit_session_id='' @ encodeURIComponent v @
     ''; Path=/; Max-Age=2592000; HttpOnly; SameSite=Lax'' @
     (if NODE_ENV e = Some ''production'' then ''; Secure'' else '''')"
    by (rule serializeSessionCookie_string)
next
  show "\<forall>c. sessionCookie (resolveUserId e cookieHeader) = Some c \<longrightarrow>
      userId (resolveUserId e cookieHeader) = generated e \<and>
      c = ''chatkit_session_id='' @ encodeURIComponent (generated e) @
          ''; Path=/; Max-Age=2592000; HttpOnly; SameSite=Lax'' @
          (if NODE_ENV e = Some ''production'' then ''; Secure'' else '''')"
    unfolding resolveUserId_def serializeSessionCookie_string [of e "generated e"]
    by (cases "getCookieValue cookieHeader SESSION_COOKIE_NAME") auto
qed

text \<open>
  Two instances: a UUID in production, and the base-36 fallback outside production.
\<close>

theorem C3_wire_format_witness:
  "sessionCookie
     (resolveUserId
        \<lparr>randomUUID = Some ''3b241101-e2bb-4255-8caf-4136c566a962'',
         mathRandom36 = ''0.4fzyo82mvyr'', NODE_ENV = Some ''production''\<rparr> None) =
     Some (''chatkit_session_id=3b241101-e2bb-4255-8caf-4136c566a962'' @
           ''; Path=/; Max-Age=2592000; HttpOnly; SameSite=Lax; Secure'') \<and>
   sessionCookie
     (resolveUserId
        \<lparr>randomUUID = None, mathRandom36 = ''0.4fzyo82mvyr'',
         NODE_ENV = Some ''development''\<rparr> (Some ''theme=dark'')) =
     Some ''chatkit_session_id=4fzyo82mvyr; Path=/; Max-Age=2592000; HttpOnly; SameSite=Lax''"
proof -
  let ?e1 = "\<lparr>randomUUID = Some ''3b241101-e2bb-4255-8caf-4136c566a962'',
         mathRandom36 = ''0.4fzyo82mvyr'', NODE_ENV = Some ''production''\<rparr>"
  let ?e2 = "\<lparr>randomUUID = None, mathRandom36 = ''0.4fzyo82mvyr'',
         NODE_ENV = Some ''development''\<rparr>"
  have g1: "no_session_pair None" by (simp add: no_session_pair_def)
  have g2: "no_session_pair (Some ''theme=dark'')"
    by (simp add: no_session_pair_def pair_named_def SESSION_COOKIE_NAME_def trim_def
        js_whitespace_def)
  have s1: "sessionCookie (resolveUserId ?e1 None) =
              Some (serializeSessionCookie ?e1 (generated ?e1))"
    by (simp add: resolveUserId_generates [OF g1])
  have s2: "sessionCookie (resolveUserId ?e2 (Some ''theme=dark'')) =
              Some (serializeSessionCookie ?e2 (generated ?e2))"
    by (simp add: resolveUserId_generates [OF g2])
  have i1: "encodeURIComponent ''3b241101-e2bb-4255-8caf-4136c566a962'' =
              ''3b241101-e2bb-4255-8caf-4136c566a962''"
    by (rule encodeURIComponent_id) (simp add: uri_unreserved_def)
  have i2: "encodeURIComponent ''4fzyo82mvyr'' = ''4fzyo82mvyr''"
    by (rule encodeURIComponent_id) (simp add: uri_unreserved_def)
  have c1: "sessionCookie (resolveUserId ?e1 None) =
     Some (''chatkit_session_id=3b241101-e2bb-4255-8caf-4136c566a962'' @
           ''; Path=/; Max-Age=2592000; HttpOnly; SameSite=Lax; Secure'')"
    using C3_wire_format [of ?e1 "generated ?e1" None] s1 i1
    by (simp add: generated_def)
  have c2: "sessionCookie (resolveUserId ?e2 (Some ''theme=dark'')) =
     Some ''chatkit_session_id=4fzyo82mvyr; Path=/; Max-Age=2592000; HttpOnly; SameSite=Lax''"
    using C3_wire_format [of ?e2 "generated ?e2" "Some ''theme=dark''"] s2 i2
    by (simp add: generated_def)
  from c1 c2 show ?thesis by (rule conjI)
qed

subsection \<open>C4: malformed headers\<close>

text \<open>
  C4: \<open>resolveUserId\<close> returns for every header. It is a total function: the loop
  is a structural recursion over the finitely many pieces of the header, and splitting,
  joining, trimming and encoding are defined on every string, so the model has no error
  branch. A malformed piece is passed over: the result is the one for the header without
  that piece. When no piece is a pair named \<open>chatkit_session_id\<close>, or the header is
  absent, the identifier is generated and a directive emitted. The header
  \<open>chatkit_session_id\<close>, with no \<open>=\<close>, is such a header.
\<close>

theorem C4_malformed_headers:
  "(malformed_pair seg \<and>
    split_on (CHR '';'') header = pre @ seg # post \<and>
    split_on (CHR '';'') header' = pre @ post \<longrightarrow>
      resolveUserId e (Some header) = resolveUserId e (Some header')) \<and>
   (no_session_pair cookieHeader \<longrightarrow>
      resolveUserId e cookieHeader =
        \<lparr>userId = generated e,
         sessionCookie = Some (serializeSessionCookie e (generated e))\<rparr>) \<and>
   resolveUserId e (Some ''chatkit_session_id'') =
     \<lparr>userId = generated e,
      sessionCookie = Some (serializeSessionCookie e (generated e))\<rparr>"
proof (intro conjI impI)
  assume a: "malformed_pair seg \<and>
    split_on (CHR '';'') header = pre @ seg # post \<and>
    split_on (CHR '';'') header' = pre @ post"
  then have "getCookieValue (Some header) SESSION_COOKIE_NAME =
             getCookieValue (Some header') SESSION_COOKIE_NAME"
    by (simp add: getCookieValue_loop_header getCookieValue_loop_skip)
  then show "resolveUserId e (Some header) = resolveUserId e (Some header')"
    by (simp add: resolveUserId_def)
next
  assume "no_session_pair cookieHeader"
  then show "resolveUserId e cookieHeader =
        \<lparr>userId = generated e,
         sessionCookie = Some (serializeSessionCookie e (generated e))\<rparr>"
    by (rule resolveUserId_generates)
next
  have "no_session_pair (Some ''chatkit_session_id'')"
    by (simp add: no_session_pair_def pair_named_def)
  then show "resolveUserId e (Some ''chatkit_session_id'') =
     \<lparr>userId = generated e,
      sessionCookie = Some (serializeSessionCookie e (generated e))\<rparr>"
    by (rule resolveUserId_generates)
qed

text \<open>
  Instances: a piece with no \<open>=\<close> between two pairs changes nothing, and a header of
  empty pieces, a piece with an empty name and a piece with no \<open>=\<close> leads to
  generation.
\<close>

theorem C4_malformed_headers_witness:
  "malformed_pair ''junk'' \<and> malformed_pair [] \<and> malformed_pair ''=v'' \<and>
   split_on (CHR '';'') ''a=1;junk;chatkit_session_id=abc'' =
     [''a=1''] @ ''junk'' # [''chatkit_session_id=abc''] \<and>
   split_on (CHR '';'') ''a=1;chatkit_session_id=abc'' = [''a=1''] @ [''chatkit_session_id=abc''] \<and>
   resolveUserId \<lparr>randomUUID = None, mathRandom36 = ''0.4fzyo82mvyr'', NODE_ENV = None\<rparr>
     (Some ''a=1;junk;chatkit_session_id=abc'') =
   resolveUserId \<lparr>randomUUID = None, mathRandom36 = ''0.4fzyo82mvyr'', NODE_ENV = None\<rparr>
     (Some ''a=1;chatkit_session_id=abc'') \<and>
   no_session_pair (Some '';;=x; novalue ; other=1'') \<and>
   resolveUserId \<lparr>randomUUID = None, mathRandom36 = ''0.4fzyo82mvyr'', NODE_ENV = None\<rparr>
     (Some '';;=x; novalue ; other=1'') =
   \<lparr>userId = ''4fzyo82mvyr'',
    sessionCookie =
      Some ''chatkit_session_id=4fzyo82mvyr; Path=/; Max-Age=2592000; HttpOnly; SameSite=Lax''\<rparr>"
proof -
  let ?e = "\<lparr>randomUUID = None, mathRandom36 = ''0.4fzyo82mvyr'', NODE_ENV = None\<rparr>"
  have m: "malformed_pair ''junk'' \<and> malformed_pair [] \<and> malformed_pair ''=v''"
    by (simp add: malformed_pair_def)
  have s1: "split_on (CHR '';'') ''a=1;junk;chatkit_session_id=abc'' =
     [''a=1''] @ ''junk'' # [''chatkit_session_id=abc'']" by simp
  have s2: "split_on (CHR '';'') ''a=1;chatkit_session_id=abc'' =
     [''a=1''] @ [''chatkit_session_id=abc'']" by simp
  have n: "no_session_pair (Some '';;=x; novalue ; other=1'')"
    by (simp add: no_session_pair_def pair_named_def SESSION_COOKIE_NAME_def trim_def
        js_whitespace_def)
  have i: "encodeURIComponent ''4fzyo82mvyr'' = ''4fzyo82mvyr''"
    by (rule encodeURIComponent_id) (simp add: uri_unreserved_def)
  have g: "generated ?e = ''4fzyo82mvyr''" by (simp add: generated_def)
  note c4 = C4_malformed_headers [of "''junk''" "''a=1;junk;chatkit_session_id=abc''"
      "[''a=1'']" "[''chatkit_session_id=abc'']" "''a=1;chatkit_session_id=abc''" ?e
      "Some '';;=x; novalue ; other=1''"]
  have r1: "resolveUserId ?e (Some ''a=1;junk;chatkit_session_id=abc'') =
            resolveUserId ?e (Some ''a=1;chatkit_session_id=abc'')"
    using c4 m s1 s2 by blast
  have r2: "resolveUserId ?e (Some '';;=x; novalue ; other=1'') =
            \<lparr>userId = generated ?e,
             sessionCookie = Some (serializeSessionCookie ?e (generated ?e))\<rparr>"
    using c4 n by blast
  have r3: "resolveUserId ?e (Some '';;=x; novalue ; other=1'') =
   \<lparr>userId = ''4fzyo82mvyr'',
    sessionCookie =
      Some ''chatkit_session_id=4fzyo82mvyr; Path=/; Max-Age=2592000; HttpOnly; SameSite=Lax''\<rparr>"
    unfolding r2 g by (simp add: serializeSessionCookie_string i)
  from m s1 s2 r1 n r3 show ?thesis by blast
qed

subsection \<open>C5: the parsing algorithm\<close>

text \<open>
  C5: \<open>getCookieValue\<close> computes what the algorithm of the specification computes
  (\<open>getCookieValue_spec\<close>: split on \<open>;\<close>, split each piece on its first \<open>=\<close>,
  trim, compare the name exactly, first match wins), for every wanted name that is not
  empty, as the fixed cookie name is. A value is returned in full, whatever \<open>=\<close> it
  contains; the first matching pair decides; the comparison is case-sensitive.
\<close>

theorem C5_getCookieValue_algorithm:
  "(name \<noteq> [] \<longrightarrow> getCookieValue (Some header) name = getCookieValue_spec header name) \<and>
   (name \<noteq> [] \<and> CHR ''='' \<notin> set rawName \<and> trim rawName = name \<and> CHR '';'' \<notin> set (rawName @ v) \<longrightarrow>
      getCookieValue (Some (rawName @ ''='' @ v)) name = Some (trim v)) \<and>
   (name \<noteq> [] \<and> split_on (CHR '';'') header = pre @ seg # post \<and>
    (\<forall>s \<in> set pre. \<not> pair_named name s) \<and> pair_named name seg \<longrightarrow>
      getCookieValue (Some header) name = Some (pair_value seg)) \<and>
   getCookieValue (Some ''chatkit_session_id=a=b'') SESSION_COOKIE_NAME = Some ''a=b'' \<and>
   getCookieValue (Some ''CHATKIT_SESSION_ID=abc'') SESSION_COOKIE_NAME = None \<and>
   getCookieValue (Some ''chatkit_session_id=first; chatkit_session_id=second'')
     SESSION_COOKIE_NAME = Some ''first''"
proof (intro conjI impI)
  assume "name \<noteq> []"
  then show "getCookieValue (Some header) name = getCookieValue_spec header name"
    by (simp add: getCookieValue_loop_header getCookieValue_spec_def
        getCookieValue_loop_first_pair_named)
next
  assume a: "name \<noteq> [] \<and> CHR ''='' \<notin> set rawName \<and> trim rawName = name \<and>
    CHR '';'' \<notin> set (rawName @ v)"
  then have n: "name \<noteq> []" and ns: "CHR '';'' \<notin> set (rawName @ ''='' @ v)" by simp_all
  have sp: "split_on (CHR '';'') (rawName @ ''='' @ v) = [rawName @ ''='' @ v]"
    using ns by (rule split_on_no_sep)
  have "getCookieValue (Some (rawName @ ''='' @ v)) name =
             first_pair_named [rawName @ ''='' @ v] name"
    unfolding getCookieValue_loop_header sp
    by (rule getCookieValue_loop_first_pair_named [OF n])
  also have "\<dots> = Some (trim v)"
    using a by (simp add: pair_named_split pair_value_split)
  finally show "getCookieValue (Some (rawName @ ''='' @ v)) name = Some (trim v)" .
next
  assume a: "name \<noteq> [] \<and> split_on (CHR '';'') header = pre @ seg # post \<and>
    (\<forall>s \<in> set pre. \<not> pair_named name s) \<and> pair_named name seg"
  then show "getCookieValue (Some header) name = Some (pair_value seg)"
    by (simp add: getCookieValue_loop_header getCookieValue_loop_first_pair_named
        first_pair_named_append)
next
  show "getCookieValue (Some ''chatkit_session_id=a=b'') SESSION_COOKIE_NAME = Some ''a=b''"
    by (simp add: getCookieValue_def SESSION_COOKIE_NAME_def trim_def js_whitespace_def)
next
  show "getCookieValue (Some ''CHATKIT_SESSION_ID=abc'') SESSION_COOKIE_NAME = None"
    by (simp add: getCookieValue_def SESSION_COOKIE_NAME_def trim_def js_whitespace_def)
next
  show "getCookieValue (Some ''chatkit_session_id=first; chatkit_session_id=second'')
     SESSION_COOKIE_NAME = Some ''first''"
    by (simp add: getCookieValue_def SESSION_COOKIE_NAME_def trim_def js_whitespace_def)
qed

text \<open>
  An instance with white space around the name and the value, an \<open>=\<close> inside the
  value and a second pair of the same name.
\<close>

theorem C5_getCookieValue_algorithm_witness:
  "getCookieValue (Some ''a=1; lang = en=US ; lang=fr'') ''lang'' =
     getCookieValue_spec ''a=1; lang = en=US ; lang=fr'' ''lang'' \<and>
   getCookieValue_spec ''a=1; lang = en=US ; lang=fr'' ''lang'' = Some ''en=US'' \<and>
   getCookieValue (Some ('' lang '' @ ''='' @ '' en=US '')) ''lang'' = Some ''en=US'' \<and>
   split_on (CHR '';'') ''a=1; lang = en=US ; lang=fr'' =
     [''a=1''] @ '' lang = en=US '' # ['' lang=fr''] \<and>
   \<not> pair_named ''lang'' ''a=1'' \<and> pair_named ''lang'' '' lang = en=US '' \<and>
   pair_value '' lang = en=US '' = ''en=US'' \<and>
   getCookieValue (Some ''a=1; lang = en=US ; lang=fr'') ''lang'' = Some ''en=US''"
proof -
  note c5 = C5_getCookieValue_algorithm [of "''lang''" "''a=1; lang = en=US ; lang=fr''"
      "'' lang ''" "'' en=US ''" "[''a=1'']" "'' lang = en=US ''" "['' lang=fr'']"]
  have n: "''lang'' \<noteq> []" by simp
  have e1: "getCookieValue (Some ''a=1; lang = en=US ; lang=fr'') ''lang'' =
     getCookieValue_spec ''a=1; lang = en=US ; lang=fr'' ''lang''"
    using c5 n by blast
  have e2: "getCookieValue_spec ''a=1; lang = en=US ; lang=fr'' ''lang'' = Some ''en=US''"
    by (simp add: getCookieValue_spec_def pair_named_def pair_value_def trim_def
        js_whitespace_def)
  have h: "CHR ''='' \<notin> set '' lang '' \<and> trim '' lang '' = ''lang'' \<and>
           CHR '';'' \<notin> set ('' lang '' @ '' en=US '')"
    by (simp add: trim_def js_whitespace_def)
  have t: "trim '' en=US '' = ''en=US''" by (simp add: trim_def js_whitespace_def)
  have e3: "getCookieValue (Some ('' lang '' @ ''='' @ '' en=US '')) ''lang'' = Some ''en=US''"
    using c5 n h t by simp
  have s: "split_on (CHR '';'') ''a=1; lang = en=US ; lang=fr'' =
     [''a=1''] @ '' lang = en=US '' # ['' lang=fr'']" by simp
  have p: "\<not> pair_named ''lang'' ''a=1'' \<and> pair_named ''lang'' '' lang = en=US ''"
    by (simp add: pair_named_def trim_def js_whitespace_def)
  have v: "pair_value '' lang = en=US '' = ''en=US''"
    by (simp add: pair_value_def trim_def js_whitespace_def)
  have e4: "getCookieValue (Some ''a=1; lang = en=US ; lang=fr'') ''lang'' = Some ''en=US''"
    using e1 e2 by simp
  from e1 e2 e3 s p v e4 show ?thesis by blast
qed

subsection \<open>C6: the Secure attribute\<close>

text \<open>
  C6: read back as a list of attributes, the directive is the pair, \<open>Path=/\<close>,
  \<open>Max-Age=2592000\<close>, \<open>HttpOnly\<close> and \<open>SameSite=Lax\<close> in every environment, followed
  by \<open>Secure\<close> exactly when \<open>NODE_ENV\<close> is \<open>production\<close>; so \<open>Secure\<close> is among
  the attributes if and only if the environment is production-flagged.
\<close>

theorem C6_secure_attribute:
  "directive_attributes (serializeSessionCookie e v) =
     [''chatkit_session_id='' @ encodeURIComponent v,
      ''Path=/'', ''Max-Age=2592000'', ''HttpOnly'', ''SameSite=Lax''] @
     (if NODE_ENV e = Some ''production'' then [''Secure''] else []) \<and>
   (''Secure'' \<in> set (directive_attributes (serializeSessionCookie e v)) \<longleftrightarrow>
      NODE_ENV e = Some ''production'')"
proof -
  have ws: "\<forall>c \<in> set (''chatkit_session_id='' @ encodeURIComponent v). \<not> js_whitespace c"
    using encodeURIComponent_no_whitespace [of v] by (auto simp: js_whitespace_def)
  have first: "trim (''chatkit_session_id='' @ encodeURIComponent v) =
               ''chatkit_session_id='' @ encodeURIComponent v"
    using ws by (rule trim_id)
  have rest: "map trim ['' Path=/'', '' Max-Age=2592000'', '' HttpOnly'', '' SameSite=Lax''] =
              [''Path=/'', ''Max-Age=2592000'', ''HttpOnly'', ''SameSite=Lax'']"
    by (simp add: trim_def js_whitespace_def)
  have sec: "trim '' Secure'' = ''Secure''" by (simp add: trim_def js_whitespace_def)
  have attrs: "directive_attributes (serializeSessionCookie e v) =
     [''chatkit_session_id='' @ encodeURIComponent v,
      ''Path=/'', ''Max-Age=2592000'', ''HttpOnly'', ''SameSite=Lax''] @
     (if NODE_ENV e = Some ''production'' then [''Secure''] else [])"
    unfolding directive_attributes_def split_on_serialized
    using first rest sec by (simp del: append.simps)
  have "''Secure'' \<noteq> ''chatkit_session_id='' @ encodeURIComponent v" by simp
  then have "''Secure'' \<in> set (directive_attributes (serializeSessionCookie e v)) \<longleftrightarrow>
      NODE_ENV e = Some ''production''"
    unfolding attrs by (simp del: append.simps) 
  with attrs show ?thesis by (rule conjI)
qed

subsection \<open>C7: the two outputs agree\<close>

text \<open>
  C7: \<open>sessionCookie\<close> is \<open>null\<close> exactly when the header yields a non-empty value
  for \<open>chatkit_session_id\<close>, and then \<open>userId\<close> is that value. Whenever a directive
  is emitted, \<open>userId\<close> is the identifier just generated, the directive is the
  serialisation of this very \<open>userId\<close>, it starts with \<open>chatkit_session_id=\<close> and the
  URL-encoded \<open>userId\<close>, and parsing it back as a \<open>Cookie\<close> header gives the
  URL-encoded \<open>userId\<close>.
\<close>

theorem C7_outputs_consistent:
  "(sessionCookie (resolveUserId e cookieHeader) = None \<longleftrightarrow>
      (\<exists>v. v \<noteq> [] \<and> getCookieValue cookieHeader SESSION_COOKIE_NAME = Some v)) \<and>
   (sessionCookie (resolveUserId e cookieHeader) = None \<longrightarrow>
      getCookieValue cookieHeader SESSION_COOKIE_NAME =
        Some (userId (resolveUserId e cookieHeader))) \<and>
   (\<forall>c. sessionCookie (resolveUserId e cookieHeader) = Some c \<longrightarrow>
      userId (resolveUserId e cookieHeader) = generated e \<and>
      c = serializeSessionCookie e (userId (resolveUserId e cookieHeader)) \<and>
      prefix (''chatkit_session_id='' @
              encodeURIComponent (userId (resolveUserId e cookieHeader)) @ ''; Path=/'') c \<and>
      getCookieValue (Some c) SESSION_COOKIE_NAME =
        Some (encodeURIComponent (userId (resolveUserId e cookieHeader))))"
proof (cases "getCookieValue cookieHeader SESSION_COOKIE_NAME")
  case None
  then have r: "resolveUserId e cookieHeader =
      \<lparr>userId = generated e, sessionCookie = Some (serializeSessionCookie e (generated e))\<rparr>"
    by (simp add: resolveUserId_def)
  have "prefix (''chatkit_session_id='' @ encodeURIComponent (generated e) @ ''; Path=/'')
          (serializeSessionCookie e (generated e))"
    by (simp add: serializeSessionCookie_string)
  with None show ?thesis
    unfolding r by (simp add: getCookieValue_serialized)
next
  case (Some existing)
  show ?thesis
  proof (cases "existing = []")
    case True
    with Some have r: "resolveUserId e cookieHeader =
      \<lparr>userId = generated e, sessionCookie = Some (serializeSessionCookie e (generated e))\<rparr>"
      by (simp add: resolveUserId_def)
    have "prefix (''chatkit_session_id='' @ encodeURIComponent (generated e) @ ''; Path=/'')
          (serializeSessionCookie e (generated e))"
      by (simp add: serializeSessionCookie_string)
    with Some True show ?thesis
      unfolding r by (simp add: getCookieValue_serialized)
  next
    case False
    with Some have r: "resolveUserId e cookieHeader =
      \<lparr>userId = existing, sessionCookie = None\<rparr>"
      by (simp add: resolveUserId_def)
    from Some False show ?thesis
      unfolding r by simp
  qed
qed

text \<open>
  Instances: a request that carries the cookie, and one that carries none.
\<close>

theorem C7_outputs_consistent_witness:
  "sessionCookie
     (resolveUserId \<lparr>randomUUID = None, mathRandom36 = ''0.4fzyo82mvyr'', NODE_ENV = None\<rparr>
        (Some ''chatkit_session_id=abc123'')) = None \<and>
   getCookieValue (Some ''chatkit_session_id=abc123'') SESSION_COOKIE_NAME =
     Some (userId
       (resolveUserId \<lparr>randomUUID = None, mathRandom36 = ''0.4fzyo82mvyr'', NODE_ENV = None\<rparr>
          (Some ''chatkit_session_id=abc123''))) \<and>
   sessionCookie
     (resolveUserId \<lparr>randomUUID = None, mathRandom36 = ''0.4fzyo82mvyr'', NODE_ENV = None\<rparr>
        None) =
     Some ''chatkit_session_id=4fzyo82mvyr; Path=/; Max-Age=2592000; HttpOnly; SameSite=Lax'' \<and>
   userId
     (resolveUserId \<lparr>randomUUID = None, mathRandom36 = ''0.4fzyo82mvyr'', NODE_ENV = None\<rparr>
        None) = ''4fzyo82mvyr'' \<and>
   getCookieValue
     (Some ''chatkit_session_id=4fzyo82mvyr; Path=/; Max-Age=2592000; HttpOnly; SameSite=Lax'')
     SESSION_COOKIE_NAME = Some ''4fzyo82mvyr''"
proof -
  let ?e = "\<lparr>randomUUID = None, mathRandom36 = ''0.4fzyo82mvyr'', NODE_ENV = None\<rparr>"
  have i: "encodeURIComponent ''4fzyo82mvyr'' = ''4fzyo82mvyr''"
    by (rule encodeURIComponent_id) (simp add: uri_unreserved_def)
  have a: "sessionCookie (resolveUserId ?e (Some ''chatkit_session_id=abc123'')) = None"
    by (simp add: resolveUserId_def getCookieValue_def SESSION_COOKIE_NAME_def trim_def
        js_whitespace_def)
  have b: "getCookieValue (Some ''chatkit_session_id=abc123'') SESSION_COOKIE_NAME =
     Some (userId (resolveUserId ?e (Some ''chatkit_session_id=abc123'')))"
    using C7_outputs_consistent [of ?e "Some ''chatkit_session_id=abc123''"] a by blast
  have c: "sessionCookie (resolveUserId ?e None) =
     Some ''chatkit_session_id=4fzyo82mvyr; Path=/; Max-Age=2592000; HttpOnly; SameSite=Lax''"
    by (simp add: resolveUserId_def getCookieValue_def generated_def
        serializeSessionCookie_string i)
  have g: "generated ?e = ''4fzyo82mvyr''" by (simp add: generated_def)
  have d1: "userId (resolveUserId ?e None) = generated ?e \<and>
     getCookieValue
       (Some ''chatkit_session_id=4fzyo82mvyr; Path=/; Max-Age=2592000; HttpOnly; SameSite=Lax'')
       SESSION_COOKIE_NAME = Some (encodeURIComponent (userId (resolveUserId ?e None)))"
    using C7_outputs_consistent [of ?e None] c by blast
  then have d: "userId (resolveUserId ?e None) = ''4fzyo82mvyr'' \<and>
     getCookieValue
       (Some ''chatkit_session_id=4fzyo82mvyr; Path=/; Max-Age=2592000; HttpOnly; SameSite=Lax'')
       SESSION_COOKIE_NAME = Some ''4fzyo82mvyr''"
    by (simp only: g i)
  from a b c d show ?thesis by blast
qed

subsection \<open>C8: distinct draws give distinct identifiers\<close>

text \<open>
  C8: the random source is an input of the model. For two invocations with no session
  pair, in environments whose draws have the shape the platform gives them, distinct
  draws give distinct generated identifiers: generation is injective in the draw. The
  draw is the string \<open>crypto.randomUUID()\<close> returns or the string
  \<open>Math.random().toString(36)\<close>; how a floating-point number is rendered in base 36
  is outside the model.
\<close>

theorem C8_distinct_draws:
  assumes "valid_draw e1" and "valid_draw e2" and "draw e1 \<noteq> draw e2"
    and "no_session_pair cookieHeader1" and "no_session_pair cookieHeader2"
  shows "generated e1 \<noteq> generated e2 \<and>
         userId (resolveUserId e1 cookieHeader1) \<noteq> userId (resolveUserId e2 cookieHeader2)"
  using generated_inj [OF assms(1-3)]
  by (simp add: resolveUserId_generates [OF assms(4)] resolveUserId_generates [OF assms(5)])

text \<open>
  Instances: two UUIDs that differ in their last digit, and the base-36 draws
  \<open>0.4fzyo82mvyr\<close> and \<open>0\<close>.
\<close>

theorem C8_distinct_draws_witness:
  "valid_draw \<lparr>randomUUID = Some ''3b241101-e2bb-4255-8caf-4136c566a962'',
               mathRandom36 = ''0.4fzyo82mvyr'', NODE_ENV = None\<rparr> \<and>
   valid_draw \<lparr>randomUUID = Some ''3b241101-e2bb-4255-8caf-4136c566a963'',
               mathRandom36 = ''0.4fzyo82mvyr'', NODE_ENV = None\<rparr> \<and>
   no_session_pair None \<and> no_session_pair (Some []) \<and>
   userId (resolveUserId \<lparr>randomUUID = Some ''3b241101-e2bb-4255-8caf-4136c566a962'',
               mathRandom36 = ''0.4fzyo82mvyr'', NODE_ENV = None\<rparr> None) \<noteq>
   userId (resolveUserId \<lparr>randomUUID = Some ''3b241101-e2bb-4255-8caf-4136c566a963'',
               mathRandom36 = ''0.4fzyo82mvyr'', NODE_ENV = None\<rparr> (Some [])) \<and>
   valid_draw \<lparr>randomUUID = None, mathRandom36 = ''0.4fzyo82mvyr'', NODE_ENV = None\<rparr> \<and>
   valid_draw \<lparr>randomUUID = None, mathRandom36 = ''0'', NODE_ENV = None\<rparr> \<and>
   userId (resolveUserId
             \<lparr>randomUUID = None, mathRandom36 = ''0.4fzyo82mvyr'', NODE_ENV = None\<rparr> None) \<noteq>
   userId (resolveUserId
             \<lparr>randomUUID = None, mathRandom36 = ''0'', NODE_ENV = None\<rparr> None)"
proof -
  let ?u1 = "\<lparr>randomUUID = Some ''3b241101-e2bb-4255-8caf-4136c566a962'',
               mathRandom36 = ''0.4fzyo82mvyr'', NODE_ENV = None\<rparr>"
  let ?u2 = "\<lparr>randomUUID = Some ''3b241101-e2bb-4255-8caf-4136c566a963'',
               mathRandom36 = ''0.4fzyo82mvyr'', NODE_ENV = None\<rparr>"
  let ?m1 = "\<lparr>randomUUID = None, mathRandom36 = ''0.4fzyo82mvyr'', NODE_ENV = None\<rparr>"
  let ?m2 = "\<lparr>randomUUID = None, mathRandom36 = ''0'', NODE_ENV = None\<rparr>"
  have v1: "valid_draw ?u1" by (simp add: valid_draw_def uuid_shaped_def uuid_char_def)
  have v2: "valid_draw ?u2" by (simp add: valid_draw_def uuid_shaped_def uuid_char_def)
  have v3: "valid_draw ?m1" by (simp add: valid_draw_def radix36_fraction_def base36_digit_def)
  have v4: "valid_draw ?m2" by (simp add: valid_draw_def radix36_fraction_def)
  have d1: "draw ?u1 \<noteq> draw ?u2" by (simp add: draw_def)
  have d2: "draw ?m1 \<noteq> draw ?m2" by (simp add: draw_def)
  have n1: "no_session_pair None" by (simp add: no_session_pair_def)
  have n2: "no_session_pair (Some [])" by (simp add: no_session_pair_def pair_named_def)
  from C8_distinct_draws [OF v1 v2 d1 n1 n2] C8_distinct_draws [OF v3 v4 d2 n1 n1]
    v1 v2 v3 v4 n1 n2
  show ?thesis by blast
qed

subsection \<open>C9: serialising, then parsing\<close>

text \<open>
  C9: \<open>getCookieValue\<close> applied to the directive that \<open>serializeSessionCookie\<close>
  produces for an identifier returns the URL-encoded identifier, for every identifier and
  in every environment; so it returns the identifier itself when encoding leaves it
  unchanged, as it does an identifier made of lower-case hexadecimal digits and hyphens.
\<close>

theorem C9_roundtrip:
  "getCookieValue (Some (serializeSessionCookie e v)) SESSION_COOKIE_NAME =
     Some (encodeURIComponent v) \<and>
   (encodeURIComponent v = v \<longrightarrow>
      getCookieValue (Some (serializeSessionCookie e v)) SESSION_COOKIE_NAME = Some v) \<and>
   (list_all uuid_char v \<longrightarrow>
      getCookieValue (Some (serializeSessionCookie e v)) SESSION_COOKIE_NAME = Some v)"
proof (intro conjI impI)
  show "getCookieValue (Some (serializeSessionCookie e v)) SESSION_COOKIE_NAME =
     Some (encodeURIComponent v)"
    by (rule getCookieValue_serialized)
next
  assume "encodeURIComponent v = v"
  then show "getCookieValue (Some (serializeSessionCookie e v)) SESSION_COOKIE_NAME = Some v"
    by (simp add: getCookieValue_serialized)
next
  assume "list_all uuid_char v"
  then have "encodeURIComponent v = v"
    by (intro encodeURIComponent_id) (auto simp: list_all_iff dest: uuid_char_unreserved)
  then show "getCookieValue (Some (serializeSessionCookie e v)) SESSION_COOKIE_NAME = Some v"
    by (simp add: getCookieValue_serialized)
qed

text \<open>
  Instances: a UUID comes back as it is; \<open>a b;c=d\<close> comes back percent-encoded.
\<close>

theorem C9_roundtrip_witness:
  "list_all uuid_char ''3b241101-e2bb-4255-8caf-4136c566a962'' \<and>
   getCookieValue
     (Some (serializeSessionCookie
        \<lparr>randomUUID = None, mathRandom36 = ''0.4fzyo82mvyr'', NODE_ENV = Some ''production''\<rparr>
        ''3b241101-e2bb-4255-8caf-4136c566a962'')) SESSION_COOKIE_NAME =
     Some ''3b241101-e2bb-4255-8caf-4136c566a962'' \<and>
   getCookieValue
     (Some (serializeSessionCookie
        \<lparr>randomUUID = None, mathRandom36 = ''0.4fzyo82mvyr'', NODE_ENV = Some ''production''\<rparr>
        ''a b;c=d'')) SESSION_COOKIE_NAME =
     Some ''a%20b%3Bc%3Dd''"
proof -
  let ?e = "\<lparr>randomUUID = None, mathRandom36 = ''0.4fzyo82mvyr'',
             NODE_ENV = Some ''production''\<rparr>"
  have u: "list_all uuid_char ''3b241101-e2bb-4255-8caf-4136c566a962''"
    by (simp add: uuid_char_def)
  have enc: "encodeURIComponent ''a b;c=d'' = ''a%20b%3Bc%3Dd''"
    by (simp add: encodeURIComponent_def encode_unit_def uri_unreserved_def percent_byte_def
        hex_digit_def)
  have r1: "getCookieValue
      (Some (serializeSessionCookie ?e ''3b241101-e2bb-4255-8caf-4136c566a962''))
      SESSION_COOKIE_NAME = Some ''3b241101-e2bb-4255-8caf-4136c566a962''"
    using C9_roundtrip [of ?e "''3b241101-e2bb-4255-8caf-4136c566a962''"] u by blast
  have "getCookieValue (Some (serializeSessionCookie ?e ''a b;c=d'')) SESSION_COOKIE_NAME =
          Some (encodeURIComponent ''a b;c=d'')"
    using C9_roundtrip [of ?e "''a b;c=d''"] by blast
  then have r2: "getCookieValue (Some (serializeSessionCookie ?e ''a b;c=d''))
      SESSION_COOKIE_NAME = Some ''a%20b%3Bc%3Dd''"
    by (simp only: enc)
  from u r1 r2 show ?thesis by blast
qed

subsection \<open>C10: an empty cookie value is not an identifier\<close>

text \<open>
  C10: when the first pair named \<open>chatkit_session_id\<close> among the pieces of the header
  has a value that is empty after trimming, \<open>resolveUserId\<close> does not return it: the
  identifier is the generated one and a directive is emitted.
\<close>

theorem C10_empty_value:
  assumes "split_on (CHR '';'') header = pre @ (rawName @ ''='' @ v) # post"
    and "\<forall>s \<in> set pre. \<not> pair_named SESSION_COOKIE_NAME s"
    and "CHR ''='' \<notin> set rawName"
    and "trim rawName = SESSION_COOKIE_NAME"
    and "trim v = []"
  shows "resolveUserId e (Some header) =
           \<lparr>userId = generated e,
            sessionCookie = Some (serializeSessionCookie e (generated e))\<rparr>"
proof -
  have "pair_named SESSION_COOKIE_NAME (rawName @ ''='' @ v)"
    using assms(3,4) by (simp add: pair_named_split)
  with assms(1,2)
  have "getCookieValue (Some header) SESSION_COOKIE_NAME = Some (pair_value (rawName @ ''='' @ v))"
    by (rule getCookieValue_first)
  also have "pair_value (rawName @ ''='' @ v) = []"
    using assms(3,5) by (simp add: pair_value_split)
  finally show ?thesis
    by (simp add: resolveUserId_def)
qed

text \<open>
  Instances: the header \<open>chatkit_session_id=\<close>, and a header whose first session pair
  has a value of blanks and is followed by another session pair.
\<close>

theorem C10_empty_value_witness:
  "split_on (CHR '';'') ''chatkit_session_id='' = [] @ (''chatkit_session_id'' @ ''='' @ []) # [] \<and>
   trim ''chatkit_session_id'' = SESSION_COOKIE_NAME \<and> trim [] = [] \<and>
   resolveUserId \<lparr>randomUUID = None, mathRandom36 = ''0.4fzyo82mvyr'', NODE_ENV = None\<rparr>
     (Some ''chatkit_session_id='') =
   \<lparr>userId = ''4fzyo82mvyr'',
    sessionCookie =
      Some ''chatkit_session_id=4fzyo82mvyr; Path=/; Max-Age=2592000; HttpOnly; SameSite=Lax''\<rparr> \<and>
   split_on (CHR '';'') ''a=1; chatkit_session_id=   ; chatkit_session_id=later'' =
     [''a=1''] @ ('' chatkit_session_id'' @ ''='' @ ''   '') # ['' chatkit_session_id=later''] \<and>
   \<not> pair_named SESSION_COOKIE_NAME ''a=1'' \<and>
   trim '' chatkit_session_id'' = SESSION_COOKIE_NAME \<and> trim ''   '' = [] \<and>
   resolveUserId \<lparr>randomUUID = None, mathRandom36 = ''0.4fzyo82mvyr'', NODE_ENV = None\<rparr>
     (Some ''a=1; chatkit_session_id=   ; chatkit_session_id=later'') =
   \<lparr>userId = ''4fzyo82mvyr'',
    sessionCookie =
      Some ''chatkit_session_id=4fzyo82mvyr; Path=/; Max-Age=2592000; HttpOnly; SameSite=Lax''\<rparr>"
proof -
  let ?e = "\<lparr>randomUUID = None, mathRandom36 = ''0.4fzyo82mvyr'', NODE_ENV = None\<rparr>"
  have i: "encodeURIComponent ''4fzyo82mvyr'' = ''4fzyo82mvyr''"
    by (rule encodeURIComponent_id) (simp add: uri_unreserved_def)
  have gen: "\<lparr>userId = generated ?e,
              sessionCookie = Some (serializeSessionCookie ?e (generated ?e))\<rparr> =
    \<lparr>userId = ''4fzyo82mvyr'',
     sessionCookie =
      Some ''chatkit_session_id=4fzyo82mvyr; Path=/; Max-Age=2592000; HttpOnly; SameSite=Lax''\<rparr>"
    by (simp add: generated_def serializeSessionCookie_string i)
  have a1: "split_on (CHR '';'') ''chatkit_session_id='' =
              [] @ (''chatkit_session_id'' @ ''='' @ []) # []" by simp
  have a2: "\<forall>s \<in> set []. \<not> pair_named SESSION_COOKIE_NAME s" by simp
  have a3: "CHR ''='' \<notin> set ''chatkit_session_id''" by simp
  have a4: "trim ''chatkit_session_id'' = SESSION_COOKIE_NAME"
    by (simp add: SESSION_COOKIE_NAME_def trim_def js_whitespace_def)
  have a5: "trim [] = []" by (simp add: trim_def)
  have b1: "split_on (CHR '';'') ''a=1; chatkit_session_id=   ; chatkit_session_id=later'' =
     [''a=1''] @ ('' chatkit_session_id'' @ ''='' @ ''   '') # ['' chatkit_session_id=later'']"
    by simp
  have b2: "\<forall>s \<in> set [''a=1'']. \<not> pair_named SESSION_COOKIE_NAME s"
    by (simp add: pair_named_def SESSION_COOKIE_NAME_def trim_def js_whitespace_def)
  have b3: "CHR ''='' \<notin> set '' chatkit_session_id''" by simp
  have b4: "trim '' chatkit_session_id'' = SESSION_COOKIE_NAME"
    by (simp add: SESSION_COOKIE_NAME_def trim_def js_whitespace_def)
  have b5: "trim ''   '' = []" by (simp add: trim_def js_whitespace_def)
  have r1: "resolveUserId ?e (Some ''chatkit_session_id='') =
    \<lparr>userId = ''4fzyo82mvyr'',
     sessionCookie =
      Some ''chatkit_session_id=4fzyo82mvyr; Path=/; Max-Age=2592000; HttpOnly; SameSite=Lax''\<rparr>"
    using C10_empty_value [OF a1 a2 a3 a4 a5, of ?e] gen by simp
  have r2: "resolveUserId ?e (Some ''a=1; chatkit_session_id=   ; chatkit_session_id=later'') =
    \<lparr>userId = ''4fzyo82mvyr'',
     sessionCookie =
      Some ''chatkit_session_id=4fzyo82mvyr; Path=/; Max-Age=2592000; HttpOnly; SameSite=Lax''\<rparr>"
    using C10_empty_value [OF b1 b2 b3 b4 b5, of ?e] gen by simp
  from a1 a4 a5 r1 b1 b2 b4 b5 r2 show ?thesis by simp
qed

end
